theory Spec2Isabelle
  imports Main "HOL-Library.Word" "HOL-Library.Multiset" "HOL-Library.Char_ord"
    "HOL-Library.List_Lexorder"
begin

section \<open>The clang-tidy driver (clang-tidy/ClangTidy.cpp)\<close>

text \<open>
  A shallow embedding of the parts of \<^verbatim>\<open>ClangTidy.cpp\<close> that decide which checks
  run (\<^verbatim>\<open>getCheckersControlList\<close>, \<^verbatim>\<open>getCheckNames\<close>), how static analyzer
  findings are turned into diagnostics (\<^verbatim>\<open>AnalyzerDiagnosticConsumer\<close>), how
  diagnostics are reported and their fixes applied (\<^verbatim>\<open>ErrorReporter\<close>,
  \<^verbatim>\<open>handleErrors\<close>) and how a check receives its name
  (\<^verbatim>\<open>ClangTidyCheck::setName\<close>).

  Strings are \<open>string\<close> (lists of bytes); \<^verbatim>\<open>std::string\<close>'s \<^verbatim>\<open>operator<\<close> is the
  lexicographic order on bytes, which is the order of \<open>HOL-Library.List_Lexorder\<close> over
  \<open>HOL-Library.Char_ord\<close>. The \<^verbatim>\<open>unsigned\<close> counters are \<open>32 word\<close>.
\<close>

subsection \<open>Check names and the analyzer's checkers\<close>

definition AnalyzerCheckNamePrefix :: string where
  "AnalyzerCheckNamePrefix = ''clang-analyzer-''"

text \<open>
  \<^verbatim>\<open>StringRef::startswith\<close>: the prefix is no longer than the string and the string's
  first bytes are the prefix's.
\<close>

definition startswith :: "string \<Rightarrow> string \<Rightarrow> bool" where
  "startswith s p = (length p \<le> length s \<and> take (length p) s = p)"

text \<open>
  \<^verbatim>\<open>ChecksFilter\<close> is declared outside this file; the driver only calls
  \<^verbatim>\<open>Filter.isCheckEnabled(Name)\<close>, so a filter is the predicate it computes.
  The table \<^verbatim>\<open>StaticAnalyzerChecks\<close> is generated from the analyzer's
  \<^verbatim>\<open>Checkers.inc\<close>; the functions below take it as an argument, in table order.
\<close>

type_synonym ChecksFilter = "string \<Rightarrow> bool"

definition isCheckEnabled :: "ChecksFilter \<Rightarrow> string \<Rightarrow> bool" where
  "isCheckEnabled Filter Name = Filter Name"

type_synonym CheckersList = "(string \<times> bool) list"

text \<open>
  The first loop of \<^verbatim>\<open>getCheckersControlList\<close>: is any checker that is not a debug
  checker enabled under its prefixed name? The flag is carried through the loop.
\<close>

fun anyAnalyzerCheckEnabled :: "ChecksFilter \<Rightarrow> string list \<Rightarrow> bool \<Rightarrow> bool" where
  "anyAnalyzerCheckEnabled Filter [] AnalyzerChecksEnabled = AnalyzerChecksEnabled"
| "anyAnalyzerCheckEnabled Filter (CheckName # rest) AnalyzerChecksEnabled =
     (let Checker = AnalyzerCheckNamePrefix @ CheckName
      in anyAnalyzerCheckEnabled Filter rest
           (AnalyzerChecksEnabled \<or>
            (\<not> startswith CheckName ''debug'' \<and> isCheckEnabled Filter Checker)))"

text \<open>
  The second loop: every core checker, and every enabled checker that is not a debug
  checker, is pushed onto the list with the flag \<open>True\<close>.
\<close>

fun collectCheckers :: "ChecksFilter \<Rightarrow> string list \<Rightarrow> CheckersList \<Rightarrow> CheckersList" where
  "collectCheckers Filter [] List = List"
| "collectCheckers Filter (CheckName # rest) List =
     (let Checker = AnalyzerCheckNamePrefix @ CheckName
      in collectCheckers Filter rest
           (if startswith CheckName ''core'' \<or>
               (\<not> startswith CheckName ''debug'' \<and> isCheckEnabled Filter Checker)
            then List @ [(CheckName, True)] else List))"

definition getCheckersControlList :: "string list \<Rightarrow> ChecksFilter \<Rightarrow> CheckersList" where
  "getCheckersControlList StaticAnalyzerChecks Filter =
     (if anyAnalyzerCheckEnabled Filter StaticAnalyzerChecks False
      then collectCheckers Filter StaticAnalyzerChecks []
      else [])"

text \<open>
  \<^verbatim>\<open>getCheckNames\<close>: the registered factories' names that the filter enables (the
  factories are given by their names, in iteration order), then the prefixed names of
  the checkers control list, then \<^verbatim>\<open>std::sort\<close>.
\<close>

fun pushEnabledFactories :: "ChecksFilter \<Rightarrow> string list \<Rightarrow> string list \<Rightarrow> string list" where
  "pushEnabledFactories Filter [] CheckNames = CheckNames"
| "pushEnabledFactories Filter (CheckFactory # rest) CheckNames =
     pushEnabledFactories Filter rest
       (if isCheckEnabled Filter CheckFactory then CheckNames @ [CheckFactory] else CheckNames)"

fun pushAnalyzerChecks :: "CheckersList \<Rightarrow> string list \<Rightarrow> string list" where
  "pushAnalyzerChecks [] CheckNames = CheckNames"
| "pushAnalyzerChecks (AnalyzerCheck # rest) CheckNames =
     pushAnalyzerChecks rest (CheckNames @ [AnalyzerCheckNamePrefix @ fst AnalyzerCheck])"

definition getCheckNames :: "string list \<Rightarrow> string list \<Rightarrow> ChecksFilter \<Rightarrow> string list" where
  "getCheckNames CheckFactories StaticAnalyzerChecks Filter =
     sort (pushAnalyzerChecks (getCheckersControlList StaticAnalyzerChecks Filter)
             (pushEnabledFactories Filter CheckFactories []))"

subsection \<open>Source locations, diagnostics and replacements\<close>

text \<open>
  A \<^verbatim>\<open>SourceLocation\<close> is an offset into a file the \<^verbatim>\<open>SourceManager\<close> knows, or an
  offset from the invalid location \<^verbatim>\<open>SourceLocation()\<close>, which is \<open>NoFileLoc 0\<close>.
\<close>

datatype SourceLocation = NoFileLoc nat | FileLoc string nat

type_synonym SourceRange = "SourceLocation \<times> SourceLocation"

fun getLocWithOffset :: "SourceLocation \<Rightarrow> nat \<Rightarrow> SourceLocation" where
  "getLocWithOffset (NoFileLoc k) Offset = NoFileLoc (k + Offset)"
| "getLocWithOffset (FileLoc File k) Offset = FileLoc File (k + Offset)"

definition getLocForStartOfFile :: "string \<Rightarrow> SourceLocation" where
  "getLocForStartOfFile File = FileLoc File 0"

text \<open>
  \<^verbatim>\<open>ErrorReporter::getLocation\<close>: an empty path gives the invalid location. The file
  entries and file IDs the \<^verbatim>\<open>SourceManager\<close> creates on the way are left out: a location
  is the path and the offset it stands for.
\<close>

definition getLocation :: "string \<Rightarrow> nat \<Rightarrow> SourceLocation" where
  "getLocation Path Offset =
     (if Path = [] then NoFileLoc 0
      else getLocWithOffset (getLocForStartOfFile Path) Offset)"

text \<open>\<^verbatim>\<open>DiagnosticsEngine::Level\<close>.\<close>

datatype Level = Ignored | Note | Remark | Warning | Error | Fatal

text \<open>
  The diagnostic IDs the reporter uses: a custom ID made from a level and a format
  string, and the two notes of clang's fix-it rewriter.
\<close>

datatype DiagID = CustomDiagID Level string | note_fixit_applied | note_fixit_failed

record FixItHint =
  RemoveRange :: SourceRange
  CodeToInsert :: string

definition CreateReplacement :: "SourceRange \<Rightarrow> string \<Rightarrow> FixItHint" where
  "CreateReplacement Rng Code = \<lparr>RemoveRange = Rng, CodeToInsert = Code\<rparr>"

text \<open>One call of \<^verbatim>\<open>Diags.Report\<close>, with the arguments and hints streamed into it.\<close>

record Report =
  ReportLoc :: SourceLocation
  ReportID :: DiagID
  ReportArgs :: "string list"
  ReportFixIts :: "FixItHint list"

text \<open>\<^verbatim>\<open>tooling::Replacement\<close>, by its getters.\<close>

record Replacement =
  getFilePath :: string
  getOffset :: nat
  getLength :: nat
  getReplacementText :: string

text \<open>
  \<^verbatim>\<open>ClangTidyMessage\<close> and \<^verbatim>\<open>ClangTidyError\<close>. The error's members \<^verbatim>\<open>CheckName\<close> and
  \<^verbatim>\<open>Message\<close> are \<open>ErrorCheckName\<close> and \<open>ErrorMessage\<close> here; \<open>Fix\<close> lists the error's
  replacements in iteration order.
\<close>

record ClangTidyMessage =
  Message :: string
  FilePath :: string
  FileOffset :: nat

record ClangTidyError =
  ErrorCheckName :: string
  ErrorMessage :: ClangTidyMessage
  Fix :: "Replacement list"
  Notes :: "ClangTidyMessage list"
  DiagLevel :: Level

subsection \<open>The error reporter\<close>

text \<open>
  \<^verbatim>\<open>Replacement::isApplicable\<close>, \<^verbatim>\<open>Replacement::apply\<close> and the \<^verbatim>\<open>Rewriter\<close> belong to
  clang's tooling and rewrite libraries. The reporter is defined over any such
  operations: \<open>'rw\<close> is the state of the \<^verbatim>\<open>Rewriter\<close>, \<open>'fs\<close> the files on disk.
\<close>

record ('rw, 'fs) Tooling =
  freshRewriter :: 'rw
  isApplicable :: "Replacement \<Rightarrow> bool"
  applyFix :: "Replacement \<Rightarrow> 'rw \<Rightarrow> bool \<times> 'rw"
  overwriteChangedFiles :: "'rw \<Rightarrow> 'fs \<Rightarrow> 'fs"

text \<open>
  The state \<^verbatim>\<open>ErrorReporter\<close> reads and writes: what \<^verbatim>\<open>Diags\<close> has reported so far, the
  \<^verbatim>\<open>Rewriter\<close>, the flag and the two \<^verbatim>\<open>unsigned\<close> counters; with them the text written
  to \<^verbatim>\<open>llvm::errs()\<close> and the files on disk, which only
  \<^verbatim>\<open>Rewrite.overwriteChangedFiles()\<close> writes.
\<close>

record ('rw, 'fs) ErrorReporter =
  Diags :: "Report list"
  Rewrite :: 'rw
  ApplyFixes :: bool
  TotalFixes :: "32 word"
  AppliedFixes :: "32 word"
  Errs :: string
  Disk :: 'fs

definition ErrorReporter_init :: "('rw, 'fs) Tooling \<Rightarrow> bool \<Rightarrow> 'fs \<Rightarrow> ('rw, 'fs) ErrorReporter" where
  "ErrorReporter_init T Apply fs =
     \<lparr>Diags = [], Rewrite = freshRewriter T, ApplyFixes = Apply,
      TotalFixes = 0, AppliedFixes = 0, Errs = [], Disk = fs\<rparr>"

text \<open>\<^verbatim>\<open>Fix.isApplicable() && Fix.apply(Rewrite)\<close>: the second operand runs only after the first.\<close>

definition attemptFix :: "('rw, 'fs) Tooling \<Rightarrow> Replacement \<Rightarrow> 'rw \<Rightarrow> bool \<times> 'rw" where
  "attemptFix T F rw = (if isApplicable T F then applyFix T F rw else (False, rw))"

text \<open>
  The loop over \<^verbatim>\<open>Error.Fix\<close> in \<^verbatim>\<open>reportDiagnostic\<close>. It carries the reporter, the
  hints streamed into the open diagnostic and \<^verbatim>\<open>FixLocations\<close>.
\<close>

fun fixLoop :: "('rw, 'fs) Tooling \<Rightarrow> Replacement list \<Rightarrow> ('rw, 'fs) ErrorReporter \<Rightarrow>
    FixItHint list \<Rightarrow> (SourceLocation \<times> bool) list \<Rightarrow>
    ('rw, 'fs) ErrorReporter \<times> FixItHint list \<times> (SourceLocation \<times> bool) list" where
  "fixLoop T [] R Hints FixLocations = (R, Hints, FixLocations)"
| "fixLoop T (F # rest) R Hints FixLocations =
     (let FixLoc = getLocation (getFilePath F) (getOffset F);
          FixEndLoc = getLocWithOffset FixLoc (getLength F);
          Hints' = Hints @ [CreateReplacement (FixLoc, FixEndLoc) (getReplacementText F)];
          R1 = R\<lparr>TotalFixes := TotalFixes R + 1\<rparr>
      in if ApplyFixes R1 then
           (let Success = fst (attemptFix T F (Rewrite R1));
                R2 = R1\<lparr>Rewrite := snd (attemptFix T F (Rewrite R1))\<rparr>;
                R3 = (if Success then R2\<lparr>AppliedFixes := AppliedFixes R2 + 1\<rparr> else R2)
            in fixLoop T rest R3 Hints' (FixLocations @ [(FixLoc, Success)]))
         else fixLoop T rest R1 Hints' FixLocations)"

definition fixNote :: "SourceLocation \<times> bool \<Rightarrow> Report" where
  "fixNote L =
     \<lparr>ReportLoc = fst L,
      ReportID = (if snd L then note_fixit_applied else note_fixit_failed),
      ReportArgs = [], ReportFixIts = []\<rparr>"

definition reportNote :: "ClangTidyMessage \<Rightarrow> Report" where
  "reportNote M =
     \<lparr>ReportLoc = getLocation (FilePath M) (FileOffset M),
      ReportID = CustomDiagID Note ''%0'',
      ReportArgs = [Message M], ReportFixIts = []\<rparr>"

text \<open>
  \<^verbatim>\<open>reportDiagnostic\<close>. The diagnostic is emitted when its builder goes out of scope,
  after the loop over the fixes; then the notes for the fixes, then the error's notes.
\<close>

definition reportDiagnostic :: "('rw, 'fs) Tooling \<Rightarrow> ('rw, 'fs) ErrorReporter \<Rightarrow> ClangTidyError \<Rightarrow>
    ('rw, 'fs) ErrorReporter" where
  "reportDiagnostic T R E =
     (let M = ErrorMessage E;
          Loc = getLocation (FilePath M) (FileOffset M);
          (R', Hints, FixLocations) = fixLoop T (Fix E) R [] [];
          Diag = \<lparr>ReportLoc = Loc, ReportID = CustomDiagID (DiagLevel E) ''%0 [%1]'',
                  ReportArgs = [Message M, ErrorCheckName E], ReportFixIts = Hints\<rparr>
      in R'\<lparr>Diags := Diags R' @ [Diag] @ map fixNote FixLocations @ map reportNote (Notes E)\<rparr>)"

text \<open>\<^verbatim>\<open>raw_ostream << unsigned\<close>: the decimal digits.\<close>

definition digit :: "nat \<Rightarrow> char" where
  "digit n = ''0123456789'' ! (n mod 10)"

function decimal :: "nat \<Rightarrow> string" where
  "decimal n = (if n < 10 then [digit n] else decimal (n div 10) @ [digit n])"
  by pat_completeness auto
termination
  by (relation "measure id") auto

definition summary :: "32 word \<Rightarrow> 32 word \<Rightarrow> string" where
  "summary Applied Suggested =
     ''clang-tidy applied '' @ decimal (unat Applied) @ '' of '' @ decimal (unat Suggested) @
     '' suggested fixes.'' @ [CHR 0x0A]"

definition Finish :: "('rw, 'fs) Tooling \<Rightarrow> ('rw, 'fs) ErrorReporter \<Rightarrow> ('rw, 'fs) ErrorReporter" where
  "Finish T R =
     (if ApplyFixes R \<and> TotalFixes R > 0
      then R\<lparr>Errs := Errs R @ summary (AppliedFixes R) (TotalFixes R),
              Disk := overwriteChangedFiles T (Rewrite R) (Disk R)\<rparr>
      else R)"

text \<open>\<^verbatim>\<open>handleErrors\<close>: a new reporter, every error in order, then \<^verbatim>\<open>Finish\<close>.\<close>

fun reportAll :: "('rw, 'fs) Tooling \<Rightarrow> ClangTidyError list \<Rightarrow> ('rw, 'fs) ErrorReporter \<Rightarrow>
    ('rw, 'fs) ErrorReporter" where
  "reportAll T [] Reporter = Reporter"
| "reportAll T (E # Errors) Reporter = reportAll T Errors (reportDiagnostic T Reporter E)"

definition handleErrors :: "('rw, 'fs) Tooling \<Rightarrow> ClangTidyError list \<Rightarrow> bool \<Rightarrow> 'fs \<Rightarrow>
    ('rw, 'fs) ErrorReporter" where
  "handleErrors T Errors Fix_flag fs = Finish T (reportAll T Errors (ErrorReporter_init T Fix_flag fs))"

text \<open>
  The outcome of every attempt on a list of fixes, in order, and the \<^verbatim>\<open>Rewriter\<close> they
  leave: each attempt runs on the \<^verbatim>\<open>Rewriter\<close> the earlier ones left.
\<close>

fun fixOutcomes :: "('rw, 'fs) Tooling \<Rightarrow> 'rw \<Rightarrow> Replacement list \<Rightarrow> bool list" where
  "fixOutcomes T rw [] = []"
| "fixOutcomes T rw (F # rest) =
     fst (attemptFix T F rw) # fixOutcomes T (snd (attemptFix T F rw)) rest"

fun rewriterAfter :: "('rw, 'fs) Tooling \<Rightarrow> 'rw \<Rightarrow> Replacement list \<Rightarrow> 'rw" where
  "rewriterAfter T rw [] = rw"
| "rewriterAfter T rw (F # rest) = rewriterAfter T (snd (attemptFix T F rw)) rest"

text \<open>The notes about fixes among some reports, and what one call of the reporter emitted.\<close>

definition isFixNote :: "Report \<Rightarrow> bool" where
  "isFixNote D = (ReportID D = note_fixit_applied \<or> ReportID D = note_fixit_failed)"

definition emittedBy :: "('rw, 'fs) Tooling \<Rightarrow> ('rw, 'fs) ErrorReporter \<Rightarrow> ClangTidyError \<Rightarrow> Report list" where
  "emittedBy T R E = drop (length (Diags R)) (Diags (reportDiagnostic T R E))"

text \<open>Two replacements conflict when they are in one file and their ranges overlap.\<close>

definition conflict :: "Replacement \<Rightarrow> Replacement \<Rightarrow> bool" where
  "conflict A B =
     (getFilePath A = getFilePath B \<and>
      getOffset A < getOffset B + getLength B \<and> getOffset B < getOffset A + getLength A)"

text \<open>
  An instance of the library operations, to run the reporter on concrete inputs: the
  \<^verbatim>\<open>Rewriter\<close> is the list of the edits it has accepted, a replacement is applicable
  when its path is not empty and is accepted when its file is one of \<open>files\<close>, and
  writing the changed files appends the accepted edits to the edits already on disk.
  As clang's \<^verbatim>\<open>Rewriter\<close> does, it accepts an edit without comparing its range with
  the edits it holds.
\<close>

definition recordingTooling :: "string list \<Rightarrow> (Replacement list, Replacement list) Tooling" where
  "recordingTooling files =
     \<lparr>freshRewriter = [],
      isApplicable = (\<lambda>F. getFilePath F \<noteq> []),
      applyFix = (\<lambda>F rw. if getFilePath F \<in> set files then (True, rw @ [F]) else (False, rw)),
      overwriteChangedFiles = (\<lambda>rw fs. fs @ rw)\<rparr>"

subsection \<open>Diagnostics of the static analyzer\<close>

text \<open>
  A piece of an analyzer path and a \<^verbatim>\<open>PathDiagnostic\<close>, by the getters
  \<^verbatim>\<open>FlushDiagnosticsImpl\<close> calls. \<^verbatim>\<open>PathPieces::flatten\<close> is the analyzer's; the consumer
  takes it as an argument.
\<close>

record PathDiagnosticPiece =
  getPieceLocation :: SourceLocation
  getString :: string
  getRanges :: "SourceRange list"

record PathDiagnostic =
  getCheckName :: string
  getDiagLocation :: SourceLocation
  getShortDescription :: string
  path :: "PathDiagnosticPiece list"

text \<open>
  One diagnostic the context has been given: the arguments of \<^verbatim>\<open>Context.diag\<close> and the
  ranges streamed into the builder it returns. The context is the list of them, in the
  order they were reported.
\<close>

record TidyDiag =
  DiagCheckName :: string
  DiagLoc :: SourceLocation
  DiagDescription :: string
  DiagSeverity :: Level
  DiagRanges :: "SourceRange list"

type_synonym ClangTidyContext = "TidyDiag list"

text \<open>
  Modelled from the spec: the default value of the level argument of
  \<^verbatim>\<open>ClangTidyContext::diag\<close>, declared in \<^verbatim>\<open>ClangTidyDiagnosticConsumer.h\<close>, which is
  not among the sources. The primary diagnostic of an analyzer finding, reported
  without a level, has severity Warning.
\<close>

definition default_Level :: Level where
  "default_Level = Warning"

text \<open>
  Modelled from the spec: \<^verbatim>\<open>ClangTidyContext::diag\<close> itself, defined in
  \<^verbatim>\<open>ClangTidyDiagnosticConsumer.cpp\<close>, which is not among the sources: the new
  diagnostic, with the ranges its builder received, goes to the end of the buffered
  list.
\<close>

definition Context_diag :: "ClangTidyContext \<Rightarrow> string \<Rightarrow> SourceLocation \<Rightarrow> string \<Rightarrow> Level \<Rightarrow>
    SourceRange list \<Rightarrow> ClangTidyContext" where
  "Context_diag Context Name Loc Description Lvl Ranges =
     Context @ [\<lparr>DiagCheckName = Name, DiagLoc = Loc, DiagDescription = Description,
                 DiagSeverity = Lvl, DiagRanges = Ranges\<rparr>]"

text \<open>The inner loop of \<^verbatim>\<open>FlushDiagnosticsImpl\<close>, over the flattened path.\<close>

fun notePieces :: "string \<Rightarrow> PathDiagnosticPiece list \<Rightarrow> ClangTidyContext \<Rightarrow> ClangTidyContext" where
  "notePieces Name [] Context = Context"
| "notePieces Name (DiagPiece # rest) Context =
     notePieces Name rest
       (Context_diag Context Name (getPieceLocation DiagPiece) (getString DiagPiece) Note
          (getRanges DiagPiece))"

text \<open>
  \<^verbatim>\<open>FlushDiagnosticsImpl\<close>. \<^verbatim>\<open>PD->path.back()\<close> has no value on an empty path: the
  result is \<open>None\<close> there.
\<close>

fun FlushDiagnosticsImpl :: "(PathDiagnosticPiece list \<Rightarrow> PathDiagnosticPiece list) \<Rightarrow>
    PathDiagnostic list \<Rightarrow> ClangTidyContext \<Rightarrow> ClangTidyContext option" where
  "FlushDiagnosticsImpl flatten [] Context = Some Context"
| "FlushDiagnosticsImpl flatten (PD # rest) Context =
     (if path PD = [] then None
      else
        (let Name = AnalyzerCheckNamePrefix @ getCheckName PD;
             Context1 = Context_diag Context Name (getDiagLocation PD) (getShortDescription PD)
                          default_Level (getRanges (last (path PD)));
             Context2 = notePieces Name (flatten (path PD)) Context1
         in FlushDiagnosticsImpl flatten rest Context2))"

subsection \<open>A check's name\<close>

text \<open>
  \<^verbatim>\<open>ClangTidyCheck::setName\<close>. What \<^verbatim>\<open>assert\<close> does depends on how the file is compiled:
  with \<^verbatim>\<open>NDEBUG\<close> defined it is no statement at all and the assignment always runs;
  without it, an assertion that fails ends the program, and the result is the failure
  and no check.
\<close>

record ClangTidyCheck =
  CheckName :: string

datatype failure = AssertionFailed

definition setName :: "bool \<Rightarrow> ClangTidyCheck \<Rightarrow> string \<Rightarrow> failure + ClangTidyCheck" where
  "setName NDEBUG Check Name =
     (if \<not> NDEBUG \<and> CheckName Check \<noteq> [] then Inl AssertionFailed
      else Inr (Check\<lparr>CheckName := Name\<rparr>))"

text \<open>Several calls of \<^verbatim>\<open>setName\<close> on one check, in order; the first failure ends them.\<close>

fun setNames :: "bool \<Rightarrow> ClangTidyCheck \<Rightarrow> string list \<Rightarrow> failure + ClangTidyCheck" where
  "setNames NDEBUG Check [] = Inr Check"
| "setNames NDEBUG Check (Name # rest) =
     (case setName NDEBUG Check Name of
        Inl e \<Rightarrow> Inl e
      | Inr Check' \<Rightarrow> setNames NDEBUG Check' rest)"

subsection \<open>Example inputs\<close>

text \<open>
  Two replacements in \<^verbatim>\<open>a.cpp\<close> whose ranges \<open>[10, 20)\<close> and \<open>[15, 25)\<close> overlap, one
  in \<^verbatim>\<open>b.cpp\<close>, and an error carrying each.
\<close>

definition exampleF1 :: Replacement where
  "exampleF1 = \<lparr>getFilePath = ''a.cpp'', getOffset = 10, getLength = 10,
                 getReplacementText = ''first''\<rparr>"

definition exampleF2 :: Replacement where
  "exampleF2 = \<lparr>getFilePath = ''a.cpp'', getOffset = 15, getLength = 10,
                 getReplacementText = ''second''\<rparr>"

definition exampleF3 :: Replacement where
  "exampleF3 = \<lparr>getFilePath = ''b.cpp'', getOffset = 0, getLength = 0,
                 getReplacementText = ''third''\<rparr>"

definition exampleD1 :: ClangTidyError where
  "exampleD1 =
     \<lparr>ErrorCheckName = ''misc-use-override'',
      ErrorMessage = \<lparr>Message = ''use override'', FilePath = ''a.cpp'', FileOffset = 10\<rparr>,
      Fix = [exampleF1], Notes = [], DiagLevel = Warning\<rparr>"

definition exampleD2 :: ClangTidyError where
  "exampleD2 =
     \<lparr>ErrorCheckName = ''google-explicit-constructor'',
      ErrorMessage = \<lparr>Message = ''make it explicit'', FilePath = ''a.cpp'', FileOffset = 15\<rparr>,
      Fix = [exampleF2], Notes = [], DiagLevel = Warning\<rparr>"

definition exampleD3 :: ClangTidyError where
  "exampleD3 =
     \<lparr>ErrorCheckName = ''llvm-namespace-comment'',
      ErrorMessage = \<lparr>Message = ''no closing comment'', FilePath = ''b.cpp'', FileOffset = 0\<rparr>,
      Fix = [exampleF3], Notes = [], DiagLevel = Warning\<rparr>"

text \<open>An error with two replacements, the second in \<^verbatim>\<open>b.cpp\<close>.\<close>

definition exampleD4 :: ClangTidyError where
  "exampleD4 =
     \<lparr>ErrorCheckName = ''misc-redundant-smartptr-get'',
      ErrorMessage = \<lparr>Message = ''redundant get()'', FilePath = ''a.cpp'', FileOffset = 10\<rparr>,
      Fix = [exampleF1, exampleF3], Notes = [], DiagLevel = Warning\<rparr>"

text \<open>
  A replacement with an empty path, and an error with \<open>2 ^ 32\<close> replacements: one in
  \<^verbatim>\<open>a.cpp\<close>, then the replacement with the empty path again and again.
\<close>

definition exampleF0 :: Replacement where
  "exampleF0 = \<lparr>getFilePath = [], getOffset = 0, getLength = 0, getReplacementText = []\<rparr>"

definition exampleWrap :: ClangTidyError where
  "exampleWrap =
     \<lparr>ErrorCheckName = ''misc-use-override'',
      ErrorMessage = \<lparr>Message = ''use override'', FilePath = ''a.cpp'', FileOffset = 10\<rparr>,
      Fix = exampleF1 # replicate (2 ^ 32 - 1) exampleF0, Notes = [], DiagLevel = Warning\<rparr>"

text \<open>An analyzer finding with a path of two pieces.\<close>

definition examplePiece1 :: PathDiagnosticPiece where
  "examplePiece1 =
     \<lparr>getPieceLocation = FileLoc ''a.c'' 3, getString = ''Assuming p is null'',
      getRanges = []\<rparr>"

definition examplePiece2 :: PathDiagnosticPiece where
  "examplePiece2 =
     \<lparr>getPieceLocation = FileLoc ''a.c'' 9, getString = ''Dereference of null pointer'',
      getRanges = [(FileLoc ''a.c'' 9, FileLoc ''a.c'' 11)]\<rparr>"

definition examplePD :: PathDiagnostic where
  "examplePD =
     \<lparr>getCheckName = ''core.NullDereference'', getDiagLocation = FileLoc ''a.c'' 9,
      getShortDescription = ''Dereference of null pointer'',
      path = [examplePiece1, examplePiece2]\<rparr>"

section \<open>Properties\<close>

subsection \<open>The loops in closed form\<close>

lemma anyAnalyzerCheckEnabled_iff:
  "anyAnalyzerCheckEnabled Filter cs b \<longleftrightarrow>
     b \<or> (\<exists>c \<in> set cs. \<not> startswith c ''debug'' \<and>
            isCheckEnabled Filter (AnalyzerCheckNamePrefix @ c))"
  by (induction cs arbitrary: b) auto

lemma collectCheckers_eq:
  "collectCheckers Filter cs acc =
     acc @ map (\<lambda>c. (c, True))
       (filter (\<lambda>c. startswith c ''core'' \<or>
          (\<not> startswith c ''debug'' \<and> isCheckEnabled Filter (AnalyzerCheckNamePrefix @ c))) cs)"
  by (induction cs arbitrary: acc) auto

lemma core_not_debug: "startswith c ''core'' \<Longrightarrow> \<not> startswith c ''debug''"
  by (cases c) (auto simp: startswith_def)

lemma getCheckersControlList_eq:
  "getCheckersControlList Checks Filter =
     (if \<exists>c \<in> set Checks. \<not> startswith c ''debug'' \<and>
           isCheckEnabled Filter (AnalyzerCheckNamePrefix @ c)
      then map (\<lambda>c. (c, True))
        (filter (\<lambda>c. startswith c ''core'' \<or>
          (\<not> startswith c ''debug'' \<and> isCheckEnabled Filter (AnalyzerCheckNamePrefix @ c))) Checks)
      else [])"
  unfolding getCheckersControlList_def anyAnalyzerCheckEnabled_iff collectCheckers_eq
  by (simp only: simp_thms append_Nil)

lemma pushEnabledFactories_eq:
  "pushEnabledFactories Filter fs acc = acc @ filter (isCheckEnabled Filter) fs"
  by (induction fs arbitrary: acc) auto

lemma pushAnalyzerChecks_eq:
  "pushAnalyzerChecks cl acc = acc @ map (\<lambda>p. AnalyzerCheckNamePrefix @ fst p) cl"
  by (induction cl arbitrary: acc) auto

lemma fixLoop_unchanged:
  "ApplyFixes (fst (fixLoop T Fs R H L)) = ApplyFixes R \<and>
   Diags (fst (fixLoop T Fs R H L)) = Diags R \<and>
   Errs (fst (fixLoop T Fs R H L)) = Errs R \<and>
   Disk (fst (fixLoop T Fs R H L)) = Disk R"
  by (induction Fs arbitrary: R H L) (simp_all add: Let_def)

lemma fixLoop_TotalFixes:
  "TotalFixes (fst (fixLoop T Fs R H L)) = TotalFixes R + of_nat (length Fs)"
  by (induction Fs arbitrary: R H L) (simp_all add: Let_def)

lemma fixLoop_Rewrite:
  "Rewrite (fst (fixLoop T Fs R H L)) =
     (if ApplyFixes R then rewriterAfter T (Rewrite R) Fs else Rewrite R)"
  by (induction Fs arbitrary: R H L) (simp_all add: Let_def)

lemma fixLoop_AppliedFixes:
  "AppliedFixes (fst (fixLoop T Fs R H L)) =
     (if ApplyFixes R
      then AppliedFixes R + of_nat (length (filter id (fixOutcomes T (Rewrite R) Fs)))
      else AppliedFixes R)"
  by (induction Fs arbitrary: R H L) (simp_all add: Let_def)

lemma fixLoop_FixLocations:
  "snd (snd (fixLoop T Fs R H L)) =
     L @ (if ApplyFixes R
          then zip (map (\<lambda>F. getLocation (getFilePath F) (getOffset F)) Fs)
                 (fixOutcomes T (Rewrite R) Fs)
          else [])"
  by (induction Fs arbitrary: R H L) (simp_all add: Let_def)

lemma length_fixOutcomes: "length (fixOutcomes T rw Fs) = length Fs"
  by (induction Fs arbitrary: rw) simp_all

lemma fixOutcomes_append:
  "fixOutcomes T rw (Fs @ Gs) = fixOutcomes T rw Fs @ fixOutcomes T (rewriterAfter T rw Fs) Gs"
  by (induction Fs arbitrary: rw) simp_all

lemma rewriterAfter_append:
  "rewriterAfter T rw (Fs @ Gs) = rewriterAfter T (rewriterAfter T rw Fs) Gs"
  by (induction Fs arbitrary: rw) simp_all

lemma reportDiagnostic_fields:
  "ApplyFixes (reportDiagnostic T R E) = ApplyFixes R"
  "Errs (reportDiagnostic T R E) = Errs R"
  "Disk (reportDiagnostic T R E) = Disk R"
  "TotalFixes (reportDiagnostic T R E) = TotalFixes R + of_nat (length (Fix E))"
  "Rewrite (reportDiagnostic T R E) =
     (if ApplyFixes R then rewriterAfter T (Rewrite R) (Fix E) else Rewrite R)"
  "AppliedFixes (reportDiagnostic T R E) =
     (if ApplyFixes R
      then AppliedFixes R + of_nat (length (filter id (fixOutcomes T (Rewrite R) (Fix E))))
      else AppliedFixes R)"
  using fixLoop_unchanged [of T "Fix E" R "[]" "[]"] fixLoop_TotalFixes [of T "Fix E" R "[]" "[]"]
    fixLoop_Rewrite [of T "Fix E" R "[]" "[]"] fixLoop_AppliedFixes [of T "Fix E" R "[]" "[]"]
  by (simp_all add: reportDiagnostic_def Let_def case_prod_beta)

text \<open>
  What one call reports: the diagnostic itself, which is no note about a fix, then the
  notes for \<^verbatim>\<open>FixLocations\<close>, then the error's own notes.
\<close>

lemma reportDiagnostic_Diags:
  "\<exists>D. \<not> isFixNote D \<and> Diags (reportDiagnostic T R E) =
     Diags R @ [D] @
       map fixNote (if ApplyFixes R
          then zip (map (\<lambda>F. getLocation (getFilePath F) (getOffset F)) (Fix E))
                 (fixOutcomes T (Rewrite R) (Fix E))
          else []) @
       map reportNote (Notes E)"
  using fixLoop_unchanged [of T "Fix E" R "[]" "[]"] fixLoop_FixLocations [of T "Fix E" R "[]" "[]"]
  by (simp add: reportDiagnostic_def Let_def isFixNote_def case_prod_beta)

lemma filter_isFixNote_fixNote: "filter isFixNote (map fixNote L) = map fixNote L"
  by (induction L) (simp_all add: isFixNote_def fixNote_def)

lemma filter_isFixNote_reportNote: "filter isFixNote (map reportNote Ns) = []"
  by (induction Ns) (simp_all add: isFixNote_def reportNote_def)

lemma fixNotes_reportDiagnostic:
  "filter isFixNote (Diags (reportDiagnostic T R E)) =
     filter isFixNote (Diags R) @
     map fixNote (if ApplyFixes R
          then zip (map (\<lambda>F. getLocation (getFilePath F) (getOffset F)) (Fix E))
                 (fixOutcomes T (Rewrite R) (Fix E))
          else [])"
proof -
  obtain D where D: "\<not> isFixNote D" "Diags (reportDiagnostic T R E) =
     Diags R @ [D] @
       map fixNote (if ApplyFixes R
          then zip (map (\<lambda>F. getLocation (getFilePath F) (getOffset F)) (Fix E))
                 (fixOutcomes T (Rewrite R) (Fix E))
          else []) @
       map reportNote (Notes E)"
    using reportDiagnostic_Diags by blast
  show ?thesis
    unfolding D(2)
    using D(1) by (simp add: filter_isFixNote_fixNote filter_isFixNote_reportNote)
qed

lemma fixNotes_emittedBy:
  "filter isFixNote (emittedBy T R E) =
     map fixNote (if ApplyFixes R
          then zip (map (\<lambda>F. getLocation (getFilePath F) (getOffset F)) (Fix E))
                 (fixOutcomes T (Rewrite R) (Fix E))
          else [])"
proof -
  obtain D where D: "\<not> isFixNote D" "Diags (reportDiagnostic T R E) =
     Diags R @ [D] @
       map fixNote (if ApplyFixes R
          then zip (map (\<lambda>F. getLocation (getFilePath F) (getOffset F)) (Fix E))
                 (fixOutcomes T (Rewrite R) (Fix E))
          else []) @
       map reportNote (Notes E)"
    using reportDiagnostic_Diags by blast
  show ?thesis
    unfolding emittedBy_def D(2)
    using D(1) by (simp add: filter_isFixNote_fixNote filter_isFixNote_reportNote)
qed

lemma ReportID_fixNote_zip:
  "length ls = length oks \<Longrightarrow>
   map ReportID (map fixNote (zip ls oks)) =
     map (\<lambda>ok. if ok then note_fixit_applied else note_fixit_failed) oks"
  by (induction ls oks rule: list_induct2) (simp_all add: fixNote_def)

lemma reportAll_fields:
  "ApplyFixes (reportAll T Es R) = ApplyFixes R"
  "Errs (reportAll T Es R) = Errs R"
  "Disk (reportAll T Es R) = Disk R"
  "TotalFixes (reportAll T Es R) = TotalFixes R + of_nat (length (concat (map Fix Es)))"
  by (induction Es arbitrary: R) (simp_all add: reportDiagnostic_fields)

lemma reportAll_Rewrite:
  "Rewrite (reportAll T Es R) =
     (if ApplyFixes R then rewriterAfter T (Rewrite R) (concat (map Fix Es)) else Rewrite R)"
  by (induction Es arbitrary: R) (simp_all add: reportDiagnostic_fields rewriterAfter_append)

lemma reportAll_AppliedFixes:
  "AppliedFixes (reportAll T Es R) =
     (if ApplyFixes R
      then AppliedFixes R +
           of_nat (length (filter id (fixOutcomes T (Rewrite R) (concat (map Fix Es)))))
      else AppliedFixes R)"
  by (induction Es arbitrary: R) (simp_all add: reportDiagnostic_fields fixOutcomes_append)

lemma fixNotes_reportAll:
  "filter isFixNote (Diags (reportAll T Es R)) =
     filter isFixNote (Diags R) @
     map fixNote (if ApplyFixes R
          then zip (map (\<lambda>F. getLocation (getFilePath F) (getOffset F)) (concat (map Fix Es)))
                 (fixOutcomes T (Rewrite R) (concat (map Fix Es)))
          else [])"
proof (induction Es arbitrary: R)
  case Nil
  then show ?case by simp
next
  case (Cons E Es)
  show ?case
    by (simp add: Cons.IH fixNotes_reportDiagnostic reportDiagnostic_fields fixOutcomes_append
        length_fixOutcomes)
qed

lemma Finish_fields:
  "Diags (Finish T R) = Diags R"
  "Rewrite (Finish T R) = Rewrite R"
  "ApplyFixes (Finish T R) = ApplyFixes R"
  "TotalFixes (Finish T R) = TotalFixes R"
  "AppliedFixes (Finish T R) = AppliedFixes R"
  by (simp_all add: Finish_def)

lemma init_fields:
  "Diags (ErrorReporter_init T A fs) = []"
  "Rewrite (ErrorReporter_init T A fs) = freshRewriter T"
  "ApplyFixes (ErrorReporter_init T A fs) = A"
  "TotalFixes (ErrorReporter_init T A fs) = 0"
  "AppliedFixes (ErrorReporter_init T A fs) = 0"
  "Errs (ErrorReporter_init T A fs) = []"
  "Disk (ErrorReporter_init T A fs) = fs"
  by (simp_all add: ErrorReporter_init_def)

lemma notePieces_eq:
  "notePieces Name Ps Context =
     Context @ map (\<lambda>P. \<lparr>DiagCheckName = Name, DiagLoc = getPieceLocation P,
                          DiagDescription = getString P, DiagSeverity = Note,
                          DiagRanges = getRanges P\<rparr>) Ps"
  by (induction Ps arbitrary: Context) (simp_all add: Context_diag_def)

lemma analyzerNames_eq:
  "map (\<lambda>p. AnalyzerCheckNamePrefix @ fst p) (getCheckersControlList Checks Filter) =
     map (\<lambda>c. AnalyzerCheckNamePrefix @ c)
       (filter (\<lambda>c. (\<exists>d \<in> set Checks. \<not> startswith d ''debug'' \<and>
                        isCheckEnabled Filter (AnalyzerCheckNamePrefix @ d)) \<and>
                     \<not> startswith c ''debug'' \<and>
                     (startswith c ''core'' \<or>
                      isCheckEnabled Filter (AnalyzerCheckNamePrefix @ c))) Checks)"
proof (cases "\<exists>d \<in> set Checks. \<not> startswith d ''debug'' \<and>
                        isCheckEnabled Filter (AnalyzerCheckNamePrefix @ d)")
  case True
  have "filter (\<lambda>c. startswith c ''core'' \<or>
          (\<not> startswith c ''debug'' \<and> isCheckEnabled Filter (AnalyzerCheckNamePrefix @ c))) Checks =
        filter (\<lambda>c. \<not> startswith c ''debug'' \<and>
                     (startswith c ''core'' \<or>
                      isCheckEnabled Filter (AnalyzerCheckNamePrefix @ c))) Checks"
    using core_not_debug by (auto intro: filter_cong)
  then show ?thesis
    using True by (simp add: getCheckersControlList_eq comp_def)
next
  case False
  have "getCheckersControlList Checks Filter = []"
    using False unfolding getCheckersControlList_eq by (simp only: if_False)
  then show ?thesis
    using False by simp
qed

lemma setNames_assert_nonempty:
  "CheckName Check \<noteq> [] \<Longrightarrow>
   setNames False Check Names = Inr Check' \<longleftrightarrow> Names = [] \<and> Check' = Check"
  by (cases Names) (auto simp: setName_def)

lemma setNames_assert:
  "setNames False Check Names = Inr Check' \<longleftrightarrow>
     (Names = [] \<and> Check' = Check) \<or>
     (Names \<noteq> [] \<and> CheckName Check = [] \<and> (\<forall>n \<in> set (butlast Names). n = []) \<and>
      Check' = Check\<lparr>CheckName := last Names\<rparr>)"
proof (induction Names arbitrary: Check)
  case Nil
  then show ?case by auto
next
  case (Cons Name rest)
  show ?case
  proof (cases "CheckName Check = []")
    case False
    then show ?thesis by (simp add: setName_def)
  next
    case True
    show ?thesis
    proof (cases "rest = []")
      case r: True
      then show ?thesis using True by (auto simp: setName_def)
    next
      case r: False
      show ?thesis
        using True r Cons.IH [of "Check\<lparr>CheckName := Name\<rparr>"]
        by (auto simp: setName_def)
    qed
  qed
qed

lemma setNames_NDEBUG:
  "setNames True Check Names =
     Inr (if Names = [] then Check else Check\<lparr>CheckName := last Names\<rparr>)"
  by (induction Names arbitrary: Check) (auto simp: setName_def)

lemma fixOutcomes_replicate:
  "\<not> isApplicable T F \<Longrightarrow> fixOutcomes T rw (replicate n F) = replicate n False"
  by (induction n) (simp_all add: attemptFix_def)

subsection \<open>Reporting and applying fixes\<close>

text \<open>
  C1, as the code has it. A dry run (\<^verbatim>\<open>ApplyFixes\<close> false) ends with the same
  \<^verbatim>\<open>TotalFixes\<close> as a real run on the same errors, but its \<^verbatim>\<open>AppliedFixes\<close> is 0: no
  edit is attempted, so nothing counts the edits that would apply. The \<^verbatim>\<open>Rewriter\<close> is
  the one the reporter was built with and the files on disk are unchanged.
\<close>

theorem dry_run_ledger:
  "TotalFixes (handleErrors T Errors False fs) = TotalFixes (handleErrors T Errors True fs) \<and>
   AppliedFixes (handleErrors T Errors False fs) = 0 \<and>
   Rewrite (handleErrors T Errors False fs) = freshRewriter T \<and>
   Disk (handleErrors T Errors False fs) = fs"
  by (simp add: handleErrors_def Finish_fields reportAll_fields reportAll_Rewrite
      reportAll_AppliedFixes init_fields Finish_def)

text \<open>
  One error with one fix: one fix is counted in both runs, and the dry run leaves the
  \<^verbatim>\<open>Rewriter\<close> and the disk as they were.
\<close>

theorem dry_run_ledger_witness:
  "TotalFixes (handleErrors (recordingTooling [''a.cpp'']) [exampleD1] False []) = 1 \<and>
   TotalFixes (handleErrors (recordingTooling [''a.cpp'']) [exampleD1] True []) = 1 \<and>
   Rewrite (handleErrors (recordingTooling [''a.cpp'']) [exampleD1] False []) = [] \<and>
   Disk (handleErrors (recordingTooling [''a.cpp'']) [exampleD1] False []) = [] \<and>
   Disk (handleErrors (recordingTooling [''a.cpp'']) [exampleD1] True []) = [exampleF1]"
  using dry_run_ledger [of "recordingTooling [''a.cpp'']" "[exampleD1]" "[]"]
  by code_simp

text \<open>
  C1 as stated fails: on one error with one fix in a file the \<^verbatim>\<open>Rewriter\<close> accepts, the
  real run ends with \<^verbatim>\<open>AppliedFixes\<close> 1 and the dry run with 0.
\<close>

theorem dry_run_parity_counterexample:
  "AppliedFixes (handleErrors (recordingTooling [''a.cpp'']) [exampleD1] True []) = 1 \<and>
   AppliedFixes (handleErrors (recordingTooling [''a.cpp'']) [exampleD1] False []) = 0"
  by code_simp

text \<open>
  C2, as the code has it. Among what one call of \<^verbatim>\<open>reportDiagnostic\<close> reports, the notes
  about fixes are, when \<^verbatim>\<open>ApplyFixes\<close> is set, one per replacement of the error, in the
  order of the replacements, each at the start location of its replacement and saying
  applied or failed as the attempt on that replacement went; when \<^verbatim>\<open>ApplyFixes\<close> is not
  set there is none.
\<close>

theorem fix_notes_per_replacement:
  "map ReportLoc (filter isFixNote (emittedBy T R E)) =
     (if ApplyFixes R then map (\<lambda>F. getLocation (getFilePath F) (getOffset F)) (Fix E) else []) \<and>
   map ReportID (filter isFixNote (emittedBy T R E)) =
     (if ApplyFixes R
      then map (\<lambda>ok. if ok then note_fixit_applied else note_fixit_failed)
             (fixOutcomes T (Rewrite R) (Fix E))
      else [])"
proof
  show "map ReportLoc (filter isFixNote (emittedBy T R E)) =
     (if ApplyFixes R then map (\<lambda>F. getLocation (getFilePath F) (getOffset F)) (Fix E) else [])"
    by (simp add: fixNotes_emittedBy comp_def fixNote_def length_fixOutcomes)
next
  show "map ReportID (filter isFixNote (emittedBy T R E)) =
     (if ApplyFixes R
      then map (\<lambda>ok. if ok then note_fixit_applied else note_fixit_failed)
             (fixOutcomes T (Rewrite R) (Fix E))
      else [])"
    by (simp add: fixNotes_emittedBy ReportID_fixNote_zip length_fixOutcomes del: map_map)
qed

text \<open>
  An error with two replacements, reported with \<^verbatim>\<open>ApplyFixes\<close> set: two notes, at the
  two start locations in order, the first applied, the second (in a file the
  \<^verbatim>\<open>Rewriter\<close> does not accept) failed.
\<close>

theorem fix_notes_per_replacement_witness:
  "filter isFixNote
     (emittedBy (recordingTooling [''a.cpp''])
        (ErrorReporter_init (recordingTooling [''a.cpp'']) True []) exampleD4) =
     [\<lparr>ReportLoc = FileLoc ''a.cpp'' 10, ReportID = note_fixit_applied,
       ReportArgs = [], ReportFixIts = []\<rparr>,
      \<lparr>ReportLoc = FileLoc ''b.cpp'' 0, ReportID = note_fixit_failed,
       ReportArgs = [], ReportFixIts = []\<rparr>]"
  using fix_notes_per_replacement [of "recordingTooling [''a.cpp'']"
      "ErrorReporter_init (recordingTooling [''a.cpp'']) True []" exampleD4]
  by code_simp

text \<open>
  C2 as stated fails: in a dry run, an error with one replacement is reported with no
  note about its fix.
\<close>

theorem fix_notes_dry_run_counterexample:
  "length (Fix exampleD1) = 1 \<and>
   filter isFixNote
     (emittedBy (recordingTooling [''a.cpp''])
        (ErrorReporter_init (recordingTooling [''a.cpp'']) False []) exampleD1) = []"
  by code_simp

subsection \<open>Which analyzer checkers run\<close>

text \<open>
  C3, as the code has it. The checkers control list is not empty exactly when some
  checker of the table that is not a debug checker is enabled under its prefixed name;
  and when it is not empty, it holds every core checker of the table, whether the
  filter enables that checker or not.
\<close>

theorem checkers_control_list_enabled:
  "(getCheckersControlList Checks Filter \<noteq> [] \<longleftrightarrow>
      (\<exists>c \<in> set Checks. \<not> startswith c ''debug'' \<and>
         isCheckEnabled Filter (AnalyzerCheckNamePrefix @ c))) \<and>
   (getCheckersControlList Checks Filter \<noteq> [] \<longrightarrow>
      (\<forall>c \<in> set Checks. startswith c ''core'' \<longrightarrow>
         (c, True) \<in> set (getCheckersControlList Checks Filter)))"
proof -
  let ?en = "\<exists>c \<in> set Checks. \<not> startswith c ''debug'' \<and>
         isCheckEnabled Filter (AnalyzerCheckNamePrefix @ c)"
  have nonempty: "getCheckersControlList Checks Filter \<noteq> [] \<longleftrightarrow> ?en"
  proof
    assume "getCheckersControlList Checks Filter \<noteq> []"
    then show ?en by (auto simp: getCheckersControlList_eq split: if_splits)
  next
    assume en: ?en
    then obtain c where c: "c \<in> set Checks" "\<not> startswith c ''debug''"
      "isCheckEnabled Filter (AnalyzerCheckNamePrefix @ c)" by blast
    then have "(c, True) \<in> set (getCheckersControlList Checks Filter)"
      using en by (auto simp: getCheckersControlList_eq)
    then show "getCheckersControlList Checks Filter \<noteq> []" by auto
  qed
  have core: "(c, True) \<in> set (getCheckersControlList Checks Filter)"
    if "getCheckersControlList Checks Filter \<noteq> []" "c \<in> set Checks" "startswith c ''core''" for c
    using that nonempty by (auto simp: getCheckersControlList_eq)
  show ?thesis using nonempty core by blast
qed

text \<open>
  A filter that enables only \<^verbatim>\<open>clang-analyzer-unix.Malloc\<close>: the list is not empty and
  holds the core checker the filter did not enable.
\<close>

theorem checkers_control_list_enabled_witness:
  "getCheckersControlList [''core.DivideZero'', ''unix.Malloc'']
       (\<lambda>n. n = ''clang-analyzer-unix.Malloc'') \<noteq> [] \<and>
   (''core.DivideZero'', True) \<in> set (getCheckersControlList [''core.DivideZero'', ''unix.Malloc'']
       (\<lambda>n. n = ''clang-analyzer-unix.Malloc''))"
  using checkers_control_list_enabled [of "[''core.DivideZero'', ''unix.Malloc'']"
      "\<lambda>n. n = ''clang-analyzer-unix.Malloc''"]
  by (simp add: startswith_def isCheckEnabled_def AnalyzerCheckNamePrefix_def)

text \<open>
  C3 as stated fails: when the only analyzer name the filter enables is a debug
  checker's, a prefixed name passes the filter and the list is empty.
\<close>

theorem analyzer_enabled_counterexample:
  "isCheckEnabled (\<lambda>n. True) (AnalyzerCheckNamePrefix @ ''debug.DumpCFG'') \<and>
   getCheckersControlList [''debug.DumpCFG''] (\<lambda>n. True) = []"
  by (simp add: getCheckersControlList_def startswith_def isCheckEnabled_def)

text \<open>
  C4, as the code has it. \<^verbatim>\<open>getCheckNames\<close> returns, sorted, exactly these names, as
  often as they occur: the factory names the filter enables and, only when the filter
  enables the prefixed name of some checker of the table that is not a debug checker,
  the prefixed name of every checker of the table that is not a debug checker and is
  a core checker or has its prefixed name enabled. So the prefixed name of every
  enabled checker that is not a debug checker is listed, a debug checker of the table
  adds no name, and a listed name that the filter does not enable is the prefixed name
  of a core checker, there because some checker that is not a debug checker is
  enabled.
\<close>

theorem getCheckNames_inventory:
  "getCheckNames Factories Checks Filter =
     sort (filter (isCheckEnabled Filter) Factories @
           map (\<lambda>c. AnalyzerCheckNamePrefix @ c)
             (filter (\<lambda>c. (\<exists>d \<in> set Checks. \<not> startswith d ''debug'' \<and>
                              isCheckEnabled Filter (AnalyzerCheckNamePrefix @ d)) \<and>
                           \<not> startswith c ''debug'' \<and>
                           (startswith c ''core'' \<or>
                            isCheckEnabled Filter (AnalyzerCheckNamePrefix @ c))) Checks)) \<and>
   sorted (getCheckNames Factories Checks Filter) \<and>
   (\<forall>c \<in> set Checks.
      \<not> startswith c ''debug'' \<and> isCheckEnabled Filter (AnalyzerCheckNamePrefix @ c) \<longrightarrow>
      AnalyzerCheckNamePrefix @ c \<in> set (getCheckNames Factories Checks Filter)) \<and>
   (\<forall>n \<in> set (getCheckNames Factories Checks Filter).
      isCheckEnabled Filter n \<or>
      ((\<exists>d \<in> set Checks. \<not> startswith d ''debug'' \<and>
          isCheckEnabled Filter (AnalyzerCheckNamePrefix @ d)) \<and>
       (\<exists>c \<in> set Checks. startswith c ''core'' \<and> n = AnalyzerCheckNamePrefix @ c)))"
proof -
  have eq: "getCheckNames Factories Checks Filter =
     sort (filter (isCheckEnabled Filter) Factories @
           map (\<lambda>c. AnalyzerCheckNamePrefix @ c)
             (filter (\<lambda>c. (\<exists>d \<in> set Checks. \<not> startswith d ''debug'' \<and>
                              isCheckEnabled Filter (AnalyzerCheckNamePrefix @ d)) \<and>
                           \<not> startswith c ''debug'' \<and>
                           (startswith c ''core'' \<or>
                            isCheckEnabled Filter (AnalyzerCheckNamePrefix @ c))) Checks))"
    by (simp only: getCheckNames_def pushAnalyzerChecks_eq pushEnabledFactories_eq
        analyzerNames_eq append_Nil)
  have srt: "sorted (getCheckNames Factories Checks Filter)"
    by (simp add: getCheckNames_def)
  have listed: "\<forall>c \<in> set Checks.
      \<not> startswith c ''debug'' \<and> isCheckEnabled Filter (AnalyzerCheckNamePrefix @ c) \<longrightarrow>
      AnalyzerCheckNamePrefix @ c \<in> set (getCheckNames Factories Checks Filter)"
    unfolding eq by auto
  have only: "\<forall>n \<in> set (getCheckNames Factories Checks Filter).
      isCheckEnabled Filter n \<or>
      ((\<exists>d \<in> set Checks. \<not> startswith d ''debug'' \<and>
          isCheckEnabled Filter (AnalyzerCheckNamePrefix @ d)) \<and>
       (\<exists>c \<in> set Checks. startswith c ''core'' \<and> n = AnalyzerCheckNamePrefix @ c))"
    unfolding eq by auto
  show ?thesis using eq srt listed only by blast
qed

text \<open>
  Two factories and three checkers, under a filter that disables one factory and the
  core checker: the core checker is listed all the same, the debug checker is not.
\<close>

theorem getCheckNames_inventory_witness:
  "getCheckNames [''misc-foo'', ''google-bar'']
      [''core.DivideZero'', ''unix.Malloc'', ''debug.DumpCFG'']
      (\<lambda>n. n \<noteq> ''google-bar'' \<and> n \<noteq> ''clang-analyzer-core.DivideZero'') =
     [''clang-analyzer-core.DivideZero'', ''clang-analyzer-unix.Malloc'', ''misc-foo'']"
  using getCheckNames_inventory [of "[''misc-foo'', ''google-bar'']"
      "[''core.DivideZero'', ''unix.Malloc'', ''debug.DumpCFG'']"
      "\<lambda>n. n \<noteq> ''google-bar'' \<and> n \<noteq> ''clang-analyzer-core.DivideZero''"]
  by code_simp

text \<open>
  C4 as stated fails: under a filter that enables only \<^verbatim>\<open>clang-analyzer-unix.Malloc\<close>,
  the inventory holds \<^verbatim>\<open>clang-analyzer-core.DivideZero\<close>, which the filter does not
  enable.
\<close>

theorem getCheckNames_filter_counterexample:
  "''clang-analyzer-core.DivideZero'' \<in> set (getCheckNames [] [''core.DivideZero'', ''unix.Malloc'']
      (\<lambda>n. n = ''clang-analyzer-unix.Malloc'')) \<and>
   \<not> isCheckEnabled (\<lambda>n. n = ''clang-analyzer-unix.Malloc'') ''clang-analyzer-core.DivideZero''"
  by code_simp

subsection \<open>Analyzer findings\<close>

text \<open>
  C5. When every path diagnostic has a path that is not empty, \<^verbatim>\<open>FlushDiagnosticsImpl\<close>
  returns, and it has added to the context, for each path diagnostic in order: one
  diagnostic of severity Warning whose text is the short description and whose check
  name is the analyzer prefix followed by the checker's name, and after it one
  diagnostic of severity Note for each piece of the flattened path, in path order,
  under the same check name.
\<close>

theorem FlushDiagnosticsImpl_emits:
  assumes "\<forall>PD \<in> set PDs. path PD \<noteq> []"
  shows "FlushDiagnosticsImpl flatten PDs Context =
    Some (Context @ concat (map (\<lambda>PD.
      \<lparr>DiagCheckName = AnalyzerCheckNamePrefix @ getCheckName PD,
       DiagLoc = getDiagLocation PD,
       DiagDescription = getShortDescription PD,
       DiagSeverity = Warning,
       DiagRanges = getRanges (last (path PD))\<rparr> #
      map (\<lambda>P. \<lparr>DiagCheckName = AnalyzerCheckNamePrefix @ getCheckName PD,
                 DiagLoc = getPieceLocation P,
                 DiagDescription = getString P,
                 DiagSeverity = Note,
                 DiagRanges = getRanges P\<rparr>) (flatten (path PD))) PDs))"
  using assms
proof (induction PDs arbitrary: Context)
  case Nil
  then show ?case by simp
next
  case (Cons PD rest)
  then have ne: "path PD \<noteq> []" and rest: "\<forall>PD \<in> set rest. path PD \<noteq> []"
    by simp_all
  show ?case
    using ne
    by (simp add: Cons.IH [OF rest] Let_def notePieces_eq Context_diag_def default_Level_def)
qed

text \<open>One finding whose path of two pieces flattens to itself: a warning and two notes.\<close>

theorem FlushDiagnosticsImpl_emits_witness:
  "FlushDiagnosticsImpl (\<lambda>p. p) [examplePD] [] =
     Some [\<lparr>DiagCheckName = ''clang-analyzer-core.NullDereference'', DiagLoc = FileLoc ''a.c'' 9,
             DiagDescription = ''Dereference of null pointer'', DiagSeverity = Warning,
             DiagRanges = [(FileLoc ''a.c'' 9, FileLoc ''a.c'' 11)]\<rparr>,
           \<lparr>DiagCheckName = ''clang-analyzer-core.NullDereference'', DiagLoc = FileLoc ''a.c'' 3,
             DiagDescription = ''Assuming p is null'', DiagSeverity = Note, DiagRanges = []\<rparr>,
           \<lparr>DiagCheckName = ''clang-analyzer-core.NullDereference'', DiagLoc = FileLoc ''a.c'' 9,
             DiagDescription = ''Dereference of null pointer'', DiagSeverity = Note,
             DiagRanges = [(FileLoc ''a.c'' 9, FileLoc ''a.c'' 11)]\<rparr>]"
proof -
  have h: "\<forall>PD \<in> set [examplePD]. path PD \<noteq> []"
    by (simp add: examplePD_def)
  show ?thesis
    using FlushDiagnosticsImpl_emits [OF h, of "\<lambda>p. p" "[]"]
    by (simp add: examplePD_def examplePiece1_def examplePiece2_def AnalyzerCheckNamePrefix_def)
qed

subsection \<open>The ledger and the summary\<close>

text \<open>
  C6. At the end of a run, \<^verbatim>\<open>llvm::errs()\<close> has received the one line that gives
  \<^verbatim>\<open>AppliedFixes\<close> and \<^verbatim>\<open>TotalFixes\<close> if fixes were to be applied and \<^verbatim>\<open>TotalFixes\<close>
  is greater than zero, and nothing otherwise: nothing in a dry run, nothing when no
  fix was attempted.
\<close>

theorem summary_printed_iff:
  "(Errs (handleErrors T Errors Fix_flag fs) \<noteq> [] \<longleftrightarrow>
      Fix_flag \<and> 0 < TotalFixes (handleErrors T Errors Fix_flag fs)) \<and>
   Errs (handleErrors T Errors Fix_flag fs) =
     (if Fix_flag \<and> 0 < TotalFixes (handleErrors T Errors Fix_flag fs)
      then ''clang-tidy applied '' @
           decimal (unat (AppliedFixes (handleErrors T Errors Fix_flag fs))) @ '' of '' @
           decimal (unat (TotalFixes (handleErrors T Errors Fix_flag fs))) @
           '' suggested fixes.'' @ [CHR 0x0A]
      else [])"
  by (simp add: handleErrors_def Finish_def reportAll_fields init_fields summary_def)

text \<open>
  Two errors with one fix each, of which the second is in a file the \<^verbatim>\<open>Rewriter\<close> does
  not accept: the real run prints that 1 of 2 fixes was applied, the dry run and the
  run without errors print nothing.
\<close>

theorem summary_printed_iff_witness:
  "Errs (handleErrors (recordingTooling [''a.cpp'']) [exampleD1, exampleD3] True []) =
     ''clang-tidy applied 1 of 2 suggested fixes.'' @ [CHR 0x0A] \<and>
   Errs (handleErrors (recordingTooling [''a.cpp'']) [exampleD1, exampleD3] False []) = [] \<and>
   Errs (handleErrors (recordingTooling [''a.cpp'']) [] True []) = []"
  using summary_printed_iff [of "recordingTooling [''a.cpp'']" "[exampleD1, exampleD3]" True "[]"]
    summary_printed_iff [of "recordingTooling [''a.cpp'']" "[exampleD1, exampleD3]" False "[]"]
    summary_printed_iff [of "recordingTooling [''a.cpp'']" "[]" True "[]"]
  by code_simp

text \<open>
  C7, as the code has it. In a run that applies fixes, the edits of all errors are
  attempted in the order the errors were reported, each on the \<^verbatim>\<open>Rewriter\<close> the earlier
  attempts left, and the note of an edit says applied exactly when
  \<^verbatim>\<open>Fix.isApplicable() && Fix.apply(Rewrite)\<close> was true for it. The reporter compares no
  ranges: whether an edit that overlaps an earlier one is rejected is decided by
  \<^verbatim>\<open>Replacement::apply\<close> alone.
\<close>

theorem fix_marks_follow_attempts:
  "map ReportID (filter isFixNote (Diags (handleErrors T Errors True fs))) =
     map (\<lambda>ok. if ok then note_fixit_applied else note_fixit_failed)
       (fixOutcomes T (freshRewriter T) (concat (map Fix Errors)))"
  by (simp add: handleErrors_def Finish_fields fixNotes_reportAll init_fields
      ReportID_fixNote_zip length_fixOutcomes del: map_map)

text \<open>
  Three errors with one fix each, reported in order: the notes say applied, applied,
  failed, as the three attempts went.
\<close>

theorem fix_marks_follow_attempts_witness:
  "map ReportID (filter isFixNote
     (Diags (handleErrors (recordingTooling [''a.cpp'']) [exampleD1, exampleD2, exampleD3] True []))) =
     [note_fixit_applied, note_fixit_applied, note_fixit_failed] \<and>
   fixOutcomes (recordingTooling [''a.cpp'']) [] [exampleF1, exampleF2, exampleF3] =
     [True, True, False]"
  using fix_marks_follow_attempts [of "recordingTooling [''a.cpp'']"
      "[exampleD1, exampleD2, exampleD3]" "[]"]
  by code_simp

text \<open>
  C7 as stated fails: with a \<^verbatim>\<open>Rewriter\<close> that takes every edit in a file it knows, two
  errors reported in order whose edits \<open>[10, 20)\<close> and \<open>[15, 25)\<close> of \<^verbatim>\<open>a.cpp\<close> overlap are
  both marked applied, and both are counted.
\<close>

theorem first_seen_wins_counterexample:
  "conflict exampleF1 exampleF2 \<and>
   map ReportID (filter isFixNote
     (Diags (handleErrors (recordingTooling [''a.cpp'']) [exampleD1, exampleD2] True []))) =
     [note_fixit_applied, note_fixit_applied] \<and>
   AppliedFixes (handleErrors (recordingTooling [''a.cpp'']) [exampleD1, exampleD2] True []) = 2"
  by code_simp

text \<open>
  C8, as the code has it. After any sequence of \<^verbatim>\<open>reportDiagnostic\<close> calls on a new
  reporter whose errors carry fewer than \<open>2 ^ 32\<close> replacements together (the counters
  are 32-bit and wrap):
  \<^verbatim>\<open>TotalFixes\<close> is the number of replacements of all reported errors, \<^verbatim>\<open>AppliedFixes\<close> is
  at most \<^verbatim>\<open>TotalFixes\<close>, and \<^verbatim>\<open>AppliedFixes\<close> is the number of edits whose attempt
  succeeded (none is attempted when fixes are not to be applied).
\<close>

theorem ledger_invariant:
  assumes "length (concat (map Fix Errors)) < 2 ^ 32"
  shows "unat (TotalFixes (reportAll T Errors (ErrorReporter_init T Apply fs))) =
           length (concat (map Fix Errors)) \<and>
         AppliedFixes (reportAll T Errors (ErrorReporter_init T Apply fs)) \<le>
           TotalFixes (reportAll T Errors (ErrorReporter_init T Apply fs)) \<and>
         unat (AppliedFixes (reportAll T Errors (ErrorReporter_init T Apply fs))) =
           (if Apply
            then length (filter id (fixOutcomes T (freshRewriter T) (concat (map Fix Errors))))
            else 0)"
proof -
  let ?n = "length (concat (map Fix Errors))"
  let ?k = "length (filter id (fixOutcomes T (freshRewriter T) (concat (map Fix Errors))))"
  have kn: "?k \<le> ?n"
    using length_filter_le [of id "fixOutcomes T (freshRewriter T) (concat (map Fix Errors))"]
    by (simp only: length_fixOutcomes)
  have n: "unat (of_nat ?n :: 32 word) = ?n"
    using assms by (simp add: unat_of_nat)
  have k: "unat (of_nat ?k :: 32 word) = ?k"
    using assms kn by (simp add: unat_of_nat)
  have tot: "TotalFixes (reportAll T Errors (ErrorReporter_init T Apply fs)) = of_nat ?n"
    by (simp add: reportAll_fields init_fields)
  have app: "AppliedFixes (reportAll T Errors (ErrorReporter_init T Apply fs)) =
      (if Apply then of_nat ?k else 0)"
    by (simp add: reportAll_AppliedFixes init_fields)
  show ?thesis
    unfolding tot app using n k kn by (simp add: word_le_nat_alt)
qed

text \<open>
  Three errors with one fix each, the third in a file the \<^verbatim>\<open>Rewriter\<close> does not accept:
  three fixes in total, two applied.
\<close>

theorem ledger_invariant_witness:
  "length (concat (map Fix [exampleD1, exampleD2, exampleD3])) < 2 ^ 32 \<and>
   unat (TotalFixes (reportAll (recordingTooling [''a.cpp'']) [exampleD1, exampleD2, exampleD3]
     (ErrorReporter_init (recordingTooling [''a.cpp'']) True []))) = 3 \<and>
   AppliedFixes (reportAll (recordingTooling [''a.cpp'']) [exampleD1, exampleD2, exampleD3]
     (ErrorReporter_init (recordingTooling [''a.cpp'']) True [])) \<le>
   TotalFixes (reportAll (recordingTooling [''a.cpp'']) [exampleD1, exampleD2, exampleD3]
     (ErrorReporter_init (recordingTooling [''a.cpp'']) True [])) \<and>
   unat (AppliedFixes (reportAll (recordingTooling [''a.cpp'']) [exampleD1, exampleD2, exampleD3]
     (ErrorReporter_init (recordingTooling [''a.cpp'']) True []))) = 2"
proof -
  have h: "length (concat (map Fix [exampleD1, exampleD2, exampleD3])) < 2 ^ 32"
    by (simp add: exampleD1_def exampleD2_def exampleD3_def)
  have n: "length (concat (map Fix [exampleD1, exampleD2, exampleD3])) = 3"
    by (simp add: exampleD1_def exampleD2_def exampleD3_def)
  have k: "length (filter id (fixOutcomes (recordingTooling [''a.cpp''])
      (freshRewriter (recordingTooling [''a.cpp'']))
      (concat (map Fix [exampleD1, exampleD2, exampleD3])))) = 2"
    by (simp add: exampleD1_def exampleD2_def exampleD3_def exampleF1_def exampleF2_def
        exampleF3_def recordingTooling_def attemptFix_def)
  show ?thesis
    using h ledger_invariant [OF h, of "recordingTooling [''a.cpp'']" True "[]"]
    unfolding n k by simp
qed

text \<open>
  C8 as stated fails: one error with \<open>2 ^ 32\<close> replacements, of which only the first is
  applicable, leaves \<^verbatim>\<open>TotalFixes\<close> at 0 and \<^verbatim>\<open>AppliedFixes\<close> at 1.
\<close>

theorem ledger_wrap_counterexample:
  "length (Fix exampleWrap) = 2 ^ 32 \<and>
   TotalFixes (reportAll (recordingTooling [''a.cpp'']) [exampleWrap]
     (ErrorReporter_init (recordingTooling [''a.cpp'']) True [])) = 0 \<and>
   AppliedFixes (reportAll (recordingTooling [''a.cpp'']) [exampleWrap]
     (ErrorReporter_init (recordingTooling [''a.cpp'']) True [])) = 1 \<and>
   \<not> AppliedFixes (reportAll (recordingTooling [''a.cpp'']) [exampleWrap]
         (ErrorReporter_init (recordingTooling [''a.cpp'']) True []))
       \<le> TotalFixes (reportAll (recordingTooling [''a.cpp'']) [exampleWrap]
         (ErrorReporter_init (recordingTooling [''a.cpp'']) True []))"
proof -
  let ?T = "recordingTooling [''a.cpp'']"
  let ?R = "reportAll ?T [exampleWrap] (ErrorReporter_init ?T True [])"
  have len: "length (Fix exampleWrap) = 2 ^ 32"
    by (simp add: exampleWrap_def)
  have na: "\<not> isApplicable ?T exampleF0"
    by (simp add: recordingTooling_def exampleF0_def)
  have first: "attemptFix ?T exampleF1 [] = (True, [exampleF1])"
    by (simp add: attemptFix_def recordingTooling_def exampleF1_def)
  have fresh: "freshRewriter ?T = []"
    by (simp add: recordingTooling_def)
  have fx: "Fix exampleWrap = exampleF1 # replicate (2 ^ 32 - 1) exampleF0"
    by (simp add: exampleWrap_def)
  have out: "fixOutcomes ?T (freshRewriter ?T) (Fix exampleWrap) =
      True # replicate (2 ^ 32 - 1) False"
    unfolding fresh fx
    by (simp only: fixOutcomes.simps first fst_conv snd_conv fixOutcomes_replicate [OF na])
  have tot: "TotalFixes ?R = 0"
    using len by (simp add: reportDiagnostic_fields init_fields)
  have app: "AppliedFixes ?R = 1"
    using out by (simp add: reportDiagnostic_fields init_fields)
  show ?thesis
    unfolding tot app using len by simp
qed

subsection \<open>Naming a check and the debug checkers\<close>

text \<open>
  C9, as the code has it. Compiled with assertions, \<^verbatim>\<open>setName\<close> succeeds only on a check
  whose name is empty, and a sequence of calls succeeds only if it is empty or starts
  on a check whose name is empty and gives the empty name in every call but the last;
  so once a name that is not empty has been set, no further call succeeds and the name
  stays. Compiled with \<^verbatim>\<open>NDEBUG\<close>, every call succeeds and the name is the one the last
  call gave.
\<close>

theorem setName_once:
  "(setName False Check Name = Inr Check' \<longleftrightarrow>
      CheckName Check = [] \<and> Check' = Check\<lparr>CheckName := Name\<rparr>) \<and>
   (setNames False Check Names = Inr Check' \<longleftrightarrow>
      (Names = [] \<and> Check' = Check) \<or>
      (Names \<noteq> [] \<and> CheckName Check = [] \<and> (\<forall>n \<in> set (butlast Names). n = []) \<and>
       Check' = Check\<lparr>CheckName := last Names\<rparr>)) \<and>
   (CheckName Check \<noteq> [] \<longrightarrow> setNames False Check Names = Inr Check' \<longrightarrow>
      Names = [] \<and> Check' = Check) \<and>
   setNames True Check Names =
     Inr (if Names = [] then Check else Check\<lparr>CheckName := last Names\<rparr>)"
proof -
  have one: "setName False Check Name = Inr Check' \<longleftrightarrow>
      CheckName Check = [] \<and> Check' = Check\<lparr>CheckName := Name\<rparr>"
    by (auto simp: setName_def)
  have kept: "CheckName Check \<noteq> [] \<longrightarrow> setNames False Check Names = Inr Check' \<longrightarrow>
      Names = [] \<and> Check' = Check"
    using setNames_assert_nonempty [of Check Names Check'] by blast
  show ?thesis
    using one kept setNames_assert [of Check Names Check'] setNames_NDEBUG [of Check Names]
    by blast
qed

text \<open>
  Compiled with assertions: a new check is named; naming it again fails, alone or in a
  sequence of calls.
\<close>

theorem setName_once_witness:
  "setName False \<lparr>CheckName = []\<rparr> ''misc-use-override'' =
     Inr \<lparr>CheckName = ''misc-use-override''\<rparr> \<and>
   setName False \<lparr>CheckName = ''misc-use-override''\<rparr> ''other'' = Inl AssertionFailed \<and>
   setNames False \<lparr>CheckName = []\<rparr> [''misc-use-override'', ''other''] = Inl AssertionFailed \<and>
   setNames False \<lparr>CheckName = ''misc-use-override''\<rparr> [] =
     Inr \<lparr>CheckName = ''misc-use-override''\<rparr>"
  using setName_once [of "\<lparr>CheckName = []\<rparr>" "''misc-use-override''"
      "\<lparr>CheckName = ''misc-use-override''\<rparr>" "[]"]
    setName_once [of "\<lparr>CheckName = ''misc-use-override''\<rparr>" "''other''"
      "\<lparr>CheckName = ''misc-use-override''\<rparr>" "[]"]
  by (simp add: setName_def)

text \<open>
  C9 as stated fails: compiled with \<^verbatim>\<open>NDEBUG\<close>, \<^verbatim>\<open>setName\<close> succeeds on a check that has a
  name and overwrites it; and compiled with assertions, a check whose name was set to
  the empty name is named again.
\<close>

theorem setName_overwrite_counterexample:
  "setName True \<lparr>CheckName = ''misc-use-override''\<rparr> ''other'' = Inr \<lparr>CheckName = ''other''\<rparr> \<and>
   setNames False \<lparr>CheckName = []\<rparr> [[], ''other''] = Inr \<lparr>CheckName = ''other''\<rparr>"
  by (simp add: setName_def)

text \<open>
  C10. A debug checker is never in the checkers control list, whatever the filter says
  of its prefixed name, and it never counts toward enabling the analyzer: the list is
  the one the table without its debug checkers gives.
\<close>

theorem debug_checkers_excluded:
  "(startswith c ''debug'' \<longrightarrow> (c, b) \<notin> set (getCheckersControlList Checks Filter)) \<and>
   getCheckersControlList Checks Filter =
     getCheckersControlList (filter (\<lambda>c. \<not> startswith c ''debug'') Checks) Filter"
proof
  show "startswith c ''debug'' \<longrightarrow> (c, b) \<notin> set (getCheckersControlList Checks Filter)"
    using core_not_debug by (auto simp: getCheckersControlList_eq)
next
  have "filter (\<lambda>c. startswith c ''core'' \<or>
          (\<not> startswith c ''debug'' \<and> isCheckEnabled Filter (AnalyzerCheckNamePrefix @ c)))
          (filter (\<lambda>c. \<not> startswith c ''debug'') Checks) =
        filter (\<lambda>c. startswith c ''core'' \<or>
          (\<not> startswith c ''debug'' \<and> isCheckEnabled Filter (AnalyzerCheckNamePrefix @ c))) Checks"
    using core_not_debug by (auto intro: filter_cong)
  then show "getCheckersControlList Checks Filter =
     getCheckersControlList (filter (\<lambda>c. \<not> startswith c ''debug'') Checks) Filter"
    by (auto simp: getCheckersControlList_eq)
qed

text \<open>
  Under a filter that enables every name, the debug checker is left out of the list
  next to an enabled checker.
\<close>

theorem debug_checkers_excluded_witness:
  "startswith ''debug.DumpCFG'' ''debug'' \<and>
   isCheckEnabled (\<lambda>n. True) (AnalyzerCheckNamePrefix @ ''debug.DumpCFG'') \<and>
   (''debug.DumpCFG'', True) \<notin>
     set (getCheckersControlList [''debug.DumpCFG'', ''unix.Malloc''] (\<lambda>n. True)) \<and>
   getCheckersControlList [''debug.DumpCFG'', ''unix.Malloc''] (\<lambda>n. True) =
     [(''unix.Malloc'', True)]"
  using debug_checkers_excluded [of "''debug.DumpCFG''" True
      "[''debug.DumpCFG'', ''unix.Malloc'']" "\<lambda>n. True"]
  by (simp add: getCheckersControlList_def startswith_def isCheckEnabled_def)

end
